theory Spec2Isabelle
  imports Main
begin

section \<open>Product catalog service: the route layer over the Product model\<close>

text \<open>
  The development follows \<^verbatim>\<open>service/routes.py\<close>. The routes are embedded
  as functions that take the store and the request and return the store together with
  either the exception that ended the request or the response. The routes import
  \<^verbatim>\<open>Product\<close> and \<^verbatim>\<open>Category\<close> from
  \<^verbatim>\<open>service.models\<close> and the status constants from
  \<^verbatim>\<open>service.common.status\<close>; neither module is among the sources, so
  both are modelled from the specification and marked as such.
\<close>

subsection \<open>Strings: lower-casing and decimal digits\<close>

text \<open>
  Python's \<^verbatim>\<open>str.lower\<close> on the characters a \<^typ>\<open>char\<close> can hold:
  the 26 capital letters go to their small letters, every other character stays.
\<close>

definition lower_char :: "char \<Rightarrow> char" where
  "lower_char c =
     (case map_of (zip ''ABCDEFGHIJKLMNOPQRSTUVWXYZ'' ''abcdefghijklmnopqrstuvwxyz'') c of
        None \<Rightarrow> c
      | Some d \<Rightarrow> d)"

definition lower :: "string \<Rightarrow> string" where
  "lower s = map lower_char s"

definition digit_char :: "nat \<Rightarrow> char" where
  "digit_char d = ''0123456789'' ! d"

definition is_digit :: "char \<Rightarrow> bool" where
  "is_digit c = (c \<in> set ''0123456789'')"

definition digit_val :: "char \<Rightarrow> nat" where
  "digit_val c =
     (case map_of (zip ''0123456789'' [0, 1, 2, 3, 4, 5, 6, 7, 8, 9]) c of
        None \<Rightarrow> 0
      | Some d \<Rightarrow> d)"

fun str_nat :: "nat \<Rightarrow> string" where
  "str_nat n =
     (if n < 10 then [digit_char n] else str_nat (n div 10) @ [digit_char (n mod 10)])"

declare str_nat.simps [simp del]

definition nat_of_digits :: "string \<Rightarrow> nat" where
  "nat_of_digits ds = foldl (\<lambda>a c. 10 * a + digit_val c) 0 ds"

text \<open>\<^verbatim>\<open>str(i)\<close> for an integer, as the f-string of the Location header uses it.\<close>

definition str_int :: "int \<Rightarrow> string" where
  "str_int i = (if i < 0 then CHR ''-'' # str_nat (nat (- i)) else str_nat (nat i))"

subsection \<open>Exact decimals\<close>

text \<open>
  Modelled from the spec: the type of \<^verbatim>\<open>price\<close> is declared in the missing
  \<^verbatim>\<open>service/models.py\<close>. The spec asks for an exact decimal that goes over the
  wire as a string. \<open>Decimal c k\<close> is the number \<open>c / 10 ^ k\<close>: an integer coefficient
  and the number of digits after the point. It is written in plain positional
  notation, with exactly \<open>k\<close> digits after the point.
\<close>

datatype decimal = Decimal int nat

text \<open>
  Modelled from the spec: the price as a string, for serialize of the missing
  \<^verbatim>\<open>service/models.py\<close>: the sign, the digits before the point, and the
  point with the \<open>k\<close> digits after it when \<open>k\<close> is not zero.
\<close>

fun str_decimal :: "decimal \<Rightarrow> string" where
  "str_decimal (Decimal c k) =
     (let ds = str_nat (nat \<bar>c\<bar>);
          padded = replicate (Suc k - length ds) CHR ''0'' @ ds;
          n = length padded - k
      in (if c < 0 then ''-'' else '''') @ take n padded @
         (if k = 0 then '''' else CHR ''.'' # drop n padded))"

text \<open>
  Modelled from the spec: reading the digits of a decimal string, for deserialize of
  the missing \<^verbatim>\<open>service/models.py\<close>: one or more digits, then nothing or a
  point and one or more digits. Anything else is not a decimal.
\<close>

definition parse_unsigned :: "string \<Rightarrow> (nat \<times> nat) option" where
  "parse_unsigned s =
     (let ip = takeWhile is_digit s; rest = dropWhile is_digit s
      in if ip = [] then None
         else (case rest of
                 [] \<Rightarrow> Some (nat_of_digits ip, 0)
               | c # fp \<Rightarrow>
                   if c = CHR ''.'' \<and> fp \<noteq> [] \<and> list_all is_digit fp
                   then Some (nat_of_digits (ip @ fp), length fp)
                   else None))"

text \<open>
  Modelled from the spec: reading a decimal string, for deserialize of the missing
  \<^verbatim>\<open>service/models.py\<close>: an optional minus sign and the digits.
\<close>

definition parse_decimal :: "string \<Rightarrow> decimal option" where
  "parse_decimal s =
     (case s of
        [] \<Rightarrow> None
      | c # r \<Rightarrow>
          if c = CHR ''-''
          then map_option (\<lambda>(m, k). Decimal (- int m) k) (parse_unsigned r)
          else map_option (\<lambda>(m, k). Decimal (int m) k) (parse_unsigned s))"

subsection \<open>JSON values\<close>

datatype json =
    JNull
  | JBool bool
  | JInt int
  | JStr string
  | JList "json list"
  | JDict "(string \<times> json) list"

subsection \<open>Status constants and exceptions\<close>

text \<open>
  Modelled from the spec: \<^verbatim>\<open>service/common/status.py\<close> is missing; the
  constants carry the numbers the spec's interface table gives.
\<close>

definition HTTP_200_OK :: nat where "HTTP_200_OK = 200"
definition HTTP_201_CREATED :: nat where "HTTP_201_CREATED = 201"
definition HTTP_204_NO_CONTENT :: nat where "HTTP_204_NO_CONTENT = 204"
definition HTTP_400_BAD_REQUEST :: nat where "HTTP_400_BAD_REQUEST = 400"
definition HTTP_404_NOT_FOUND :: nat where "HTTP_404_NOT_FOUND = 404"
definition HTTP_415_UNSUPPORTED_MEDIA_TYPE :: nat where "HTTP_415_UNSUPPORTED_MEDIA_TYPE = 415"

text \<open>
  What ends a request early. \<open>HTTPException n\<close> is what \<^verbatim>\<open>abort(n)\<close> raises;
  \<open>KeyError\<close> is Python's own, raised by a failed enumeration lookup;
  \<open>DataValidationError\<close> and \<open>DataError\<close> are the model's two errors as the spec
  names them.
\<close>

datatype exn =
    HTTPException nat
  | KeyError string
  | DataValidationError string
  | DataError string

subsection \<open>Category\<close>

text \<open>
  Modelled from the spec: the enumeration is declared in the missing
  \<^verbatim>\<open>service/models.py\<close>. The members are the ones the spec lists.
  \<open>Category_name\<close> is a member's \<^verbatim>\<open>.name\<close>; \<open>Category_getitem\<close> is the
  lookup by name, \<^verbatim>\<open>Category[s]\<close>, which raises \<^verbatim>\<open>KeyError\<close> for a
  string that names no member.
\<close>

datatype Category = UNKNOWN | FOOD | CLOTHS | HOUSEWARES | AUTOMOTIVE | TOOLS

text \<open>
  Modelled from the spec: a member's symbolic name, for the enumeration of the missing
  \<^verbatim>\<open>service/models.py\<close>.
\<close>

fun Category_name :: "Category \<Rightarrow> string" where
  "Category_name UNKNOWN = ''UNKNOWN''"
| "Category_name FOOD = ''FOOD''"
| "Category_name CLOTHS = ''CLOTHS''"
| "Category_name HOUSEWARES = ''HOUSEWARES''"
| "Category_name AUTOMOTIVE = ''AUTOMOTIVE''"
| "Category_name TOOLS = ''TOOLS''"

text \<open>
  Modelled from the spec: the members of the enumeration of the missing
  \<^verbatim>\<open>service/models.py\<close>, a closed set.
\<close>

definition Category_members :: "Category list" where
  "Category_members = [UNKNOWN, FOOD, CLOTHS, HOUSEWARES, AUTOMOTIVE, TOOLS]"

text \<open>
  Modelled from the spec: the member a string names, if any; names are compared
  exactly. The enumeration is in the missing \<^verbatim>\<open>service/models.py\<close>.
\<close>

definition Category_lookup :: "string \<Rightarrow> Category option" where
  "Category_lookup s = map_of (map (\<lambda>c. (Category_name c, c)) Category_members) s"

text \<open>
  Modelled from the spec: \<^verbatim>\<open>Category[s]\<close> on the enumeration of the missing
  \<^verbatim>\<open>service/models.py\<close>; Python raises \<^verbatim>\<open>KeyError\<close> for a string
  that names no member.
\<close>

definition Category_getitem :: "string \<Rightarrow> exn + Category" where
  "Category_getitem s =
     (case Category_lookup s of None \<Rightarrow> Inl (KeyError s) | Some c \<Rightarrow> Inr c)"

subsection \<open>The Product entity\<close>

text \<open>
  Modelled from the spec: the class is declared in the missing
  \<^verbatim>\<open>service/models.py\<close>. A Python object's attribute may be unset
  (\<^verbatim>\<open>None\<close>), as all of them are after \<^verbatim>\<open>Product()\<close>, so every field is
  an option. The field \<^verbatim>\<open>id\<close> is written \<open>id'\<close>.
\<close>

record Product =
  id' :: "int option"
  name :: "string option"
  description :: "string option"
  price :: "decimal option"
  available :: "bool option"
  category :: "Category option"

text \<open>
  Modelled from the spec: \<^verbatim>\<open>Product()\<close> of the missing
  \<^verbatim>\<open>service/models.py\<close>, an entity with nothing set and not yet persisted.
\<close>

definition Product_init :: Product where
  "Product_init =
     \<lparr>id' = None, name = None, description = None, price = None, available = None,
      category = None\<rparr>"


text \<open>
  Modelled from the spec: how serialize of the missing \<^verbatim>\<open>service/models.py\<close>
  renders an attribute that may be unset, \<^verbatim>\<open>None\<close> as null.
\<close>

fun json_opt :: "('a \<Rightarrow> json) \<Rightarrow> 'a option \<Rightarrow> json" where
  "json_opt f None = JNull"
| "json_opt f (Some x) = f x"

text \<open>
  Modelled from the spec: serialize of the missing \<^verbatim>\<open>service/models.py\<close>
  (section 4.1). The mapping has the keys id, name, description, price, available and
  category; the price is rendered as a string and the category as its name.
\<close>

definition serialize :: "Product \<Rightarrow> json" where
  "serialize p =
     JDict
       [(''id'', json_opt JInt (id' p)),
        (''name'', json_opt JStr (name p)),
        (''description'', json_opt JStr (description p)),
        (''price'', json_opt (\<lambda>d. JStr (str_decimal d)) (price p)),
        (''available'', json_opt JBool (available p)),
        (''category'', json_opt (\<lambda>c. JStr (Category_name c)) (category p))]"

text \<open>
  Modelled from the spec: the name in deserialize of the missing
  \<^verbatim>\<open>service/models.py\<close>. A name that is missing or not a string is a
  validation error.
\<close>

definition des_name :: "(string \<times> json) list \<Rightarrow> exn + string" where
  "des_name kvs =
     (case map_of kvs ''name'' of
        None \<Rightarrow> Inl (DataValidationError ''Invalid product: missing name'')
      | Some (JStr s) \<Rightarrow> Inr s
      | Some _ \<Rightarrow> Inl (DataValidationError ''Invalid type for string [name]''))"

text \<open>
  Modelled from the spec: the description in deserialize of the missing
  \<^verbatim>\<open>service/models.py\<close>. The description is optional text: it may be null,
  and when the mapping does not carry it the entity keeps the one it has.
\<close>

definition des_description :: "string option \<Rightarrow> (string \<times> json) list \<Rightarrow> exn + string option" where
  "des_description old kvs =
     (case map_of kvs ''description'' of
        None \<Rightarrow> Inr old
      | Some JNull \<Rightarrow> Inr None
      | Some (JStr s) \<Rightarrow> Inr (Some s)
      | Some _ \<Rightarrow> Inl (DataValidationError ''Invalid type for string [description]''))"

text \<open>
  Modelled from the spec: the price in deserialize of the missing
  \<^verbatim>\<open>service/models.py\<close>. The price is mandatory and travels as a decimal
  string; a missing or invalid one is a validation error.
\<close>

definition des_price :: "(string \<times> json) list \<Rightarrow> exn + decimal" where
  "des_price kvs =
     (case map_of kvs ''price'' of
        None \<Rightarrow> Inl (DataValidationError ''Invalid product: missing price'')
      | Some (JStr s) \<Rightarrow>
          (case parse_decimal s of
             None \<Rightarrow> Inl (DataValidationError ''Invalid decimal [price]'')
           | Some d \<Rightarrow> Inr d)
      | Some _ \<Rightarrow> Inl (DataValidationError ''Invalid type for decimal string [price]''))"

text \<open>
  Modelled from the spec: the availability in deserialize of the missing
  \<^verbatim>\<open>service/models.py\<close>. One that is present but not a boolean is a
  validation error; when the mapping does not carry it the entity keeps the one it has.
\<close>

definition des_available :: "bool option \<Rightarrow> (string \<times> json) list \<Rightarrow> exn + bool option" where
  "des_available old kvs =
     (case map_of kvs ''available'' of
        None \<Rightarrow> Inr old
      | Some (JBool b) \<Rightarrow> Inr (Some b)
      | Some _ \<Rightarrow> Inl (DataValidationError ''Invalid type for boolean [available]''))"

text \<open>
  Modelled from the spec: the category in deserialize of the missing
  \<^verbatim>\<open>service/models.py\<close>. A value that names no member of the enumeration is
  a validation error; when the mapping does not carry it the entity keeps the one it
  has.
\<close>

definition des_category :: "Category option \<Rightarrow> (string \<times> json) list \<Rightarrow> exn + Category option" where
  "des_category old kvs =
     (case map_of kvs ''category'' of
        None \<Rightarrow> Inr old
      | Some (JStr s) \<Rightarrow>
          (case Category_lookup s of
             None \<Rightarrow> Inl (DataValidationError ''Invalid attribute [category]'')
           | Some c \<Rightarrow> Inr (Some c))
      | Some _ \<Rightarrow> Inl (DataValidationError ''Invalid attribute [category]''))"

text \<open>
  Modelled from the spec: the id in deserialize of the missing
  \<^verbatim>\<open>service/models.py\<close>. The id is immutable once it is set (section 3), and
  a round trip through serialize and deserialize keeps an id that was set
  (section 8). So an entity that has an id keeps it whatever the mapping says, and an
  entity that has none takes the one the mapping carries, if it carries one.
\<close>

definition des_id :: "int option \<Rightarrow> (string \<times> json) list \<Rightarrow> int option" where
  "des_id old kvs =
     (case old of
        Some i \<Rightarrow> Some i
      | None \<Rightarrow> (case map_of kvs ''id'' of Some (JInt i) \<Rightarrow> Some i | _ \<Rightarrow> None))"

text \<open>
  Modelled from the spec: deserialize of the missing \<^verbatim>\<open>service/models.py\<close>
  (sections 3, 4.1 and 8). It fills the entity it is called on from a mapping and fails
  with a validation error when the name is missing or not a string, when available is
  present but not a boolean, when the category names no member, and when a required
  field is missing; name and price are the mandatory fields. The routes call it as
  \<^verbatim>\<open>product.deserialize(data)\<close> and go on with \<^verbatim>\<open>product\<close>: it works
  on the receiver.
\<close>

definition deserialize :: "Product \<Rightarrow> json \<Rightarrow> exn + Product" where
  "deserialize self data =
     (case data of
        JDict kvs \<Rightarrow>
          (case des_name kvs of
             Inl e \<Rightarrow> Inl e
           | Inr n \<Rightarrow>
          (case des_description (description self) kvs of
             Inl e \<Rightarrow> Inl e
           | Inr d \<Rightarrow>
          (case des_price kvs of
             Inl e \<Rightarrow> Inl e
           | Inr pr \<Rightarrow>
          (case des_available (available self) kvs of
             Inl e \<Rightarrow> Inl e
           | Inr a \<Rightarrow>
          (case des_category (category self) kvs of
             Inl e \<Rightarrow> Inl e
           | Inr c \<Rightarrow>
               Inr (self\<lparr>id' := des_id (id' self) kvs, name := Some n, description := d,
                         price := Some pr, available := a, category := c\<rparr>))))))
      | _ \<Rightarrow> Inl (DataValidationError ''Invalid product: body of request contained bad or no data''))"

subsection \<open>The data store and the query layer\<close>

text \<open>
  Modelled from the spec: the data store of sections 2 and 6, which the missing
  \<^verbatim>\<open>service/models.py\<close> sets up. One table of Product rows keyed by id, kept
  here in insertion order, and the sequence the store draws the next id from.
\<close>

record store =
  rows :: "Product list"
  next_id :: int

text \<open>
  Modelled from the spec: \<^verbatim>\<open>Product.all\<close> of the missing
  \<^verbatim>\<open>service/models.py\<close> (section 4.2): every row.
\<close>

definition Product_all :: "store \<Rightarrow> Product list" where
  "Product_all db = rows db"

text \<open>
  Modelled from the spec: \<^verbatim>\<open>Product.find\<close> of the missing
  \<^verbatim>\<open>service/models.py\<close> (section 4.2): the lookup by primary key, the row
  with that id or nothing.
\<close>

fun find_row :: "Product list \<Rightarrow> int \<Rightarrow> Product option" where
  "find_row [] i = None"
| "find_row (r # rs) i = (if id' r = Some i then Some r else find_row rs i)"

text \<open>
  Modelled from the spec: \<^verbatim>\<open>Product.find\<close>, as above, on the store.
\<close>

definition Product_find :: "store \<Rightarrow> int \<Rightarrow> Product option" where
  "Product_find db i = find_row (rows db) i"

text \<open>
  Modelled from the spec: \<^verbatim>\<open>Product.find_by_name\<close> of the missing
  \<^verbatim>\<open>service/models.py\<close> (section 4.2): the rows whose name is exactly the
  given string.
\<close>

definition find_by_name :: "store \<Rightarrow> string \<Rightarrow> Product list" where
  "find_by_name db n = filter (\<lambda>r. name r = Some n) (rows db)"

text \<open>
  Modelled from the spec: \<^verbatim>\<open>Product.find_by_category\<close> of the missing
  \<^verbatim>\<open>service/models.py\<close> (section 4.2): the rows of the given category.
\<close>

definition find_by_category :: "store \<Rightarrow> Category \<Rightarrow> Product list" where
  "find_by_category db c = filter (\<lambda>r. category r = Some c) (rows db)"

text \<open>
  Modelled from the spec: \<^verbatim>\<open>Product.find_by_availability\<close> of the missing
  \<^verbatim>\<open>service/models.py\<close> (section 4.2): the rows of the given availability.
\<close>

definition find_by_availability :: "store \<Rightarrow> bool \<Rightarrow> Product list" where
  "find_by_availability db b = filter (\<lambda>r. available r = Some b) (rows db)"

text \<open>
  Modelled from the spec: create of the missing \<^verbatim>\<open>service/models.py\<close>
  (section 4.1). The store assigns the id and inserts the row. The constraints whose violation
  is a \<open>DataError\<close> are the ones the spec states: name and price are mandatory, and an
  id identifies one row only.
\<close>

definition create :: "store \<Rightarrow> Product \<Rightarrow> exn + (store \<times> Product)" where
  "create db self =
     (let i = next_id db; p = self\<lparr>id' := Some i\<rparr>
      in if name self = None \<or> price self = None
         then Inl (DataError ''null value violates not-null constraint'')
         else if Product_find db i \<noteq> None
         then Inl (DataError ''duplicate key value violates unique constraint'')
         else Inr (db\<lparr>rows := rows db @ [p], next_id := i + 1\<rparr>, p))"

text \<open>
  Modelled from the spec: update of the missing \<^verbatim>\<open>service/models.py\<close>
  (section 4.1). It needs the id to be set and a row with that id to exist, and replaces that
  row's fields by the entity's.
\<close>

definition update :: "store \<Rightarrow> Product \<Rightarrow> exn + store" where
  "update db self =
     (case id' self of
        None \<Rightarrow> Inl (DataError ''Update called with empty ID field'')
      | Some i \<Rightarrow>
          if Product_find db i = None
          then Inl (DataError ''no row with this id'')
          else Inr (db\<lparr>rows := map (\<lambda>r. if id' r = Some i then self else r) (rows db)\<rparr>))"

text \<open>
  Modelled from the spec: delete of the missing \<^verbatim>\<open>service/models.py\<close>
  (section 4.1). It removes the row by id; nothing happens when there is none.
\<close>

definition delete :: "store \<Rightarrow> Product \<Rightarrow> store" where
  "delete db self =
     (case id' self of
        None \<Rightarrow> db
      | Some i \<Rightarrow> db\<lparr>rows := filter (\<lambda>r. id' r \<noteq> Some i) (rows db)\<rparr>)"

text \<open>
  Modelled from the spec: part of the invariant of the store below; the id of a row is
  set and is one the store has assigned already.
\<close>

definition id_below :: "int \<Rightarrow> Product \<Rightarrow> bool" where
  "id_below n r = (case id' r of None \<Rightarrow> False | Some i \<Rightarrow> i < n)"

text \<open>
  Modelled from the spec: the invariant of section 3, an id identifies one row. The ids
  of the rows are set, pairwise distinct and below the next id the store assigns.
\<close>

definition store_inv :: "store \<Rightarrow> bool" where
  "store_inv db = (distinct (map id' (rows db)) \<and> list_all (id_below (next_id db)) (rows db))"

subsection \<open>Requests and responses\<close>

text \<open>
  What the routes read of Flask's request object: \<^verbatim>\<open>request.args\<close> (the query
  string, in order; \<^verbatim>\<open>get\<close> gives the first value of a key or
  \<^verbatim>\<open>None\<close>), \<^verbatim>\<open>request.is_json\<close> (the content type says JSON), and
  what parsing the body as JSON gives (\<open>None\<close> when it is not well-formed).
\<close>

record request =
  args :: "(string \<times> string) list"
  is_json :: bool
  parsed_json :: "json option"

definition args_get :: "(string \<times> string) list \<Rightarrow> string \<Rightarrow> string option" where
  "args_get a k = map_of a k"

text \<open>
  \<^verbatim>\<open>request.get_json()\<close>: a body whose content type is not JSON is refused with
  415 and one that does not parse with 400; only then is the parsed value returned.
\<close>

definition get_json :: "request \<Rightarrow> exn + json" where
  "get_json req =
     (if \<not> is_json req then Inl (HTTPException HTTP_415_UNSUPPORTED_MEDIA_TYPE)
      else (case parsed_json req of
              None \<Rightarrow> Inl (HTTPException HTTP_400_BAD_REQUEST)
            | Some j \<Rightarrow> Inr j))"

datatype content = Text string | Json json

record response =
  body :: content
  status :: nat
  headers :: "(string \<times> string) list"

definition jsonify :: "json \<Rightarrow> content" where
  "jsonify j = Json j"

text \<open>
  Python's truth test of \<^verbatim>\<open>request.args.get(k)\<close>: \<^verbatim>\<open>None\<close> and the
  empty string are false.
\<close>

fun truthy :: "string option \<Rightarrow> bool" where
  "truthy None = False"
| "truthy (Some s) = (s \<noteq> [])"

text \<open>
  Modelled from the spec: the error handlers of section 7, which live in the missing
  \<^verbatim>\<open>service/common/error_handlers.py\<close>. An abort answers with its status, a
  validation error with 400. For an exception that no handler of the spec's
  taxonomy names (a storage error, a Python \<^verbatim>\<open>KeyError\<close>) there is no
  client-error status: it surfaces as a server error, written \<open>None\<close>.
\<close>

fun status_code :: "exn + response \<Rightarrow> nat option" where
  "status_code (Inr r) = Some (status r)"
| "status_code (Inl (HTTPException n)) = Some n"
| "status_code (Inl (DataValidationError m)) = Some HTTP_400_BAD_REQUEST"
| "status_code (Inl (KeyError k)) = None"
| "status_code (Inl (DataError m)) = None"

subsection \<open>The routes\<close>

text \<open>\<^verbatim>\<open>routes.py\<close>, lines 16 to 26: the index page and the health check.\<close>

definition index :: "response" where
  "index = \<lparr>body = Text ''Product Catalog Administration'', status = HTTP_200_OK, headers = []\<rparr>"

definition health :: "response" where
  "health = \<lparr>body = jsonify (JDict [(''message'', JStr ''OK'')]), status = HTTP_200_OK, headers = []\<rparr>"

text \<open>
  \<^verbatim>\<open>routes.py\<close>, lines 32 to 45: POST on /products. The content type is tested
  first; then the body is parsed, deserialized into a fresh product and created.
\<close>

definition create_products :: "store \<Rightarrow> request \<Rightarrow> store \<times> (exn + response)" where
  "create_products db req =
     (if \<not> is_json req then (db, Inl (HTTPException HTTP_415_UNSUPPORTED_MEDIA_TYPE))
      else (case get_json req of
              Inl e \<Rightarrow> (db, Inl e)
            | Inr data \<Rightarrow>
          (case deserialize Product_init data of
              Inl e \<Rightarrow> (db, Inl e)
            | Inr product \<Rightarrow>
          (case create db product of
              Inl e \<Rightarrow> (db, Inl e)
            | Inr (db', product') \<Rightarrow>
                (db',
                 Inr \<lparr>body = jsonify (serialize product'),
                      status = HTTP_201_CREATED,
                      headers =
                        [(''Location'',
                          ''/products/'' @
                          (case id' product' of None \<Rightarrow> ''None'' | Some i \<Rightarrow> str_int i))]\<rparr>)))))"

text \<open>
  \<^verbatim>\<open>routes.py\<close>, lines 51 to 66: GET on /products. The three parameters are
  read, the \<^verbatim>\<open>if\<close>/\<^verbatim>\<open>elif\<close> chain picks one query by the truth value
  of each, and the products are serialized into a 200 answer. Nothing is written, so
  the store is not returned.
\<close>

definition list_products :: "store \<Rightarrow> request \<Rightarrow> exn + response" where
  "list_products db req =
     (let name = args_get (args req) ''name'';
          category = args_get (args req) ''category'';
          available = args_get (args req) ''available'';
          products =
            (if truthy name then Inr (find_by_name db (the name))
             else if truthy category then
               (case Category_getitem (the category) of
                  Inl e \<Rightarrow> Inl e
                | Inr c \<Rightarrow> Inr (find_by_category db c))
             else if truthy available then
               Inr (find_by_availability db (lower (the available) = ''true''))
             else Inr (Product_all db))
      in (case products of
            Inl e \<Rightarrow> Inl e
          | Inr ps \<Rightarrow>
              Inr \<lparr>body = jsonify (JList (map serialize ps)), status = HTTP_200_OK,
                   headers = []\<rparr>))"

text \<open>
  \<^verbatim>\<open>routes.py\<close>, lines 72 to 105: GET, PUT and DELETE on /products/id. The
  path converter \<^verbatim>\<open>int\<close> admits the natural numbers. Each route looks the
  product up first and aborts with 404 when there is none.
\<close>

definition get_products :: "store \<Rightarrow> nat \<Rightarrow> store \<times> (exn + response)" where
  "get_products db product_id =
     (case Product_find db (int product_id) of
        None \<Rightarrow> (db, Inl (HTTPException HTTP_404_NOT_FOUND))
      | Some product \<Rightarrow>
          (db, Inr \<lparr>body = jsonify (serialize product), status = HTTP_200_OK, headers = []\<rparr>))"

definition update_products :: "store \<Rightarrow> nat \<Rightarrow> request \<Rightarrow> store \<times> (exn + response)" where
  "update_products db product_id req =
     (case Product_find db (int product_id) of
        None \<Rightarrow> (db, Inl (HTTPException HTTP_404_NOT_FOUND))
      | Some product \<Rightarrow>
          (case get_json req of
             Inl e \<Rightarrow> (db, Inl e)
           | Inr data \<Rightarrow>
          (case deserialize product data of
             Inl e \<Rightarrow> (db, Inl e)
           | Inr product' \<Rightarrow>
          (case update db product' of
             Inl e \<Rightarrow> (db, Inl e)
           | Inr db' \<Rightarrow>
               (db',
                Inr \<lparr>body = jsonify (serialize product'), status = HTTP_200_OK,
                     headers = []\<rparr>)))))"

definition delete_products :: "store \<Rightarrow> nat \<Rightarrow> store \<times> (exn + response)" where
  "delete_products db product_id =
     (case Product_find db (int product_id) of
        None \<Rightarrow> (db, Inl (HTTPException HTTP_404_NOT_FOUND))
      | Some product \<Rightarrow>
          (delete db product,
           Inr \<lparr>body = Text '''', status = HTTP_204_NO_CONTENT, headers = []\<rparr>))"

text \<open>The 200 answer of \<^verbatim>\<open>list_products\<close> for a sequence of products.\<close>

abbreviation listing :: "Product list \<Rightarrow> exn + response" where
  "listing ps \<equiv>
     Inr \<lparr>body = jsonify (JList (map serialize ps)), status = HTTP_200_OK, headers = []\<rparr>"

subsection \<open>Example data\<close>

text \<open>
  A store with two rows, a product that is not stored yet, the requests and a PUT
  payload, used to instantiate the theorems below.
\<close>

definition hammer :: Product where
  "hammer =
     \<lparr>id' = Some 1, name = Some ''Hammer'', description = Some ''steel'',
      price = Some (Decimal 999 2), available = Some True, category = Some TOOLS\<rparr>"

definition shirt :: Product where
  "shirt =
     \<lparr>id' = Some 2, name = Some ''Shirt'', description = None,
      price = Some (Decimal 2500 2), available = Some False, category = Some CLOTHS\<rparr>"

definition shop :: store where
  "shop = \<lparr>rows = [hammer, shirt], next_id = 3\<rparr>"

definition query :: "(string \<times> string) list \<Rightarrow> request" where
  "query a = \<lparr>args = a, is_json = False, parsed_json = None\<rparr>"

definition json_request :: "json \<Rightarrow> request" where
  "json_request j = \<lparr>args = [], is_json = True, parsed_json = Some j\<rparr>"

definition unknown_category_kvs :: "(string \<times> json) list" where
  "unknown_category_kvs =
     [(''name'', JStr ''Hammer''), (''description'', JStr ''steel''), (''price'', JStr ''9.99''),
      (''available'', JBool True), (''category'', JStr ''BOGUS'')]"

definition wrench :: Product where
  "wrench =
     \<lparr>id' = None, name = Some ''Wrench'', description = None,
      price = Some (Decimal 1250 2), available = Some True, category = Some TOOLS\<rparr>"

definition hammer_kvs :: "(string \<times> json) list" where
  "hammer_kvs =
     [(''id'', JInt 7), (''name'', JStr ''Hammer''),
      (''description'', JStr ''Updated description''), (''price'', JStr ''9.99'')]"

section \<open>Properties of the route layer\<close>

subsection \<open>Auxiliary facts\<close>

lemma find_row_None_iff: "find_row rs i = None \<longleftrightarrow> (\<forall>r \<in> set rs. id' r \<noteq> Some i)"
  by (induction rs) auto

lemma find_row_Some: "find_row rs i = Some p \<Longrightarrow> id' p = Some i \<and> p \<in> set rs"
  by (induction rs) (auto split: if_splits)

lemma map_of_filter_key:
  "map_of (filter (\<lambda>kv. fst kv \<noteq> k) a) k' = (if k' = k then None else map_of a k')"
  by (induction a) auto

lemma lower_char_cases:
  "lower_char c = CHR ''t'' \<longleftrightarrow> c = CHR ''t'' \<or> c = CHR ''T''"
  "lower_char c = CHR ''r'' \<longleftrightarrow> c = CHR ''r'' \<or> c = CHR ''R''"
  "lower_char c = CHR ''u'' \<longleftrightarrow> c = CHR ''u'' \<or> c = CHR ''U''"
  "lower_char c = CHR ''e'' \<longleftrightarrow> c = CHR ''e'' \<or> c = CHR ''E''"
  by (auto simp: lower_char_def split: if_splits)

lemma map_eq_four:
  "map f s = [w, x, y, z] \<longleftrightarrow>
     (\<exists>a b c d. s = [a, b, c, d] \<and> f a = w \<and> f b = x \<and> f c = y \<and> f d = z)"
proof (cases s)
  case Nil
  then show ?thesis by simp
next
  case (Cons a s1)
  note s = this
  show ?thesis
  proof (cases s1)
    case Nil
    with s show ?thesis by simp
  next
    case (Cons b s2)
    note s1 = this
    show ?thesis
    proof (cases s2)
      case Nil
      with s s1 show ?thesis by simp
    next
      case (Cons c s3)
      note s2 = this
      show ?thesis
      proof (cases s3)
        case Nil
        with s s1 s2 show ?thesis by simp
      next
        case (Cons d s4)
        with s s1 s2 show ?thesis by (cases s4) auto
      qed
    qed
  qed
qed

text \<open>The strings that lower-case to \<open>true\<close> are its sixteen spellings in either case.\<close>

lemma lower_true_iff:
  "lower s = ''true'' \<longleftrightarrow>
     (\<exists>a b c d. s = [a, b, c, d] \<and> a \<in> {CHR ''t'', CHR ''T''} \<and> b \<in> {CHR ''r'', CHR ''R''}
        \<and> c \<in> {CHR ''u'', CHR ''U''} \<and> d \<in> {CHR ''e'', CHR ''E''})"
  by (simp only: lower_def map_eq_four lower_char_cases insert_iff empty_iff simp_thms)

lemma shop_queries:
  "find_by_name shop ''Hammer'' = [hammer]"
  "find_by_name shop '''' = []"
  "find_by_category shop CLOTHS = [shirt]"
  "find_by_availability shop True = [hammer]"
  "find_by_availability shop False = [shirt]"
  "Product_all shop = [hammer, shirt]"
  by (simp_all add: find_by_name_def find_by_category_def find_by_availability_def Product_all_def
      shop_def hammer_def shirt_def)

lemma Category_lookup_examples:
  "Category_lookup ''CLOTHS'' = Some CLOTHS"
  "Category_lookup ''BOGUS'' = None"
  by (simp_all add: Category_lookup_def Category_members_def)

lemma lower_examples:
  "lower ''TRUE'' = ''true''" "lower ''True'' = ''true''" "lower ''true'' = ''true''" "lower ''yes'' \<noteq> ''true''"
  "lower '''' \<noteq> ''true''"
  by (simp_all add: lower_def lower_char_def)

subsection \<open>Listing and querying\<close>

text \<open>
  With no usable name, a non-empty category that names no member makes the
  enumeration lookup raise \<^verbatim>\<open>KeyError\<close>. The route does not catch it and the
  handlers' taxonomy does not name it, so no client-error status comes out of it.
\<close>

lemma unknown_category_raises:
  assumes "\<not> truthy (args_get (args req) ''name'')"
    and "args_get (args req) ''category'' = Some c" and "c \<noteq> []" and "Category_lookup c = None"
  shows "list_products db req = Inl (KeyError c) \<and> status_code (list_products db req) = None"
  using assms by (simp add: list_products_def Category_getitem_def)

text \<open>
  The sibling path does answer 400: a POST whose body names an unknown category is
  refused by deserialize with a validation error, and nothing is created.
\<close>

lemma unknown_category_in_body:
  "create_products shop (json_request (JDict unknown_category_kvs))
     = (shop, Inl (DataValidationError ''Invalid attribute [category]''))
   \<and> status_code (snd (create_products shop (json_request (JDict unknown_category_kvs)))) = Some 400"
  by (simp add: create_products_def get_json_def json_request_def deserialize_def
      unknown_category_kvs_def des_id_def des_name_def des_description_def des_price_def des_available_def
      des_category_def parse_decimal_def parse_unsigned_def is_digit_def nat_of_digits_def
      digit_val_def Category_lookup_examples Product_init_def HTTP_400_BAD_REQUEST_def)

text \<open>
  C1, at the failing input: GET /products?category=BOGUS carries a non-empty category
  that names no member of the enumeration, and no name. The claim asks for the status
  400. The route raises \<^verbatim>\<open>KeyError\<close> from the enumeration lookup instead, which
  is no client error: the status is not 400.
\<close>

theorem unknown_category_not_400:
  "Category_lookup ''BOGUS'' = None
   \<and> list_products shop (query [(''category'', ''BOGUS'')]) = Inl (KeyError ''BOGUS'')
   \<and> status_code (list_products shop (query [(''category'', ''BOGUS'')])) = None
   \<and> status_code (list_products shop (query [(''category'', ''BOGUS'')])) \<noteq> Some 400"
  by (simp add: query_def args_get_def Category_lookup_examples list_products_def
      Category_getitem_def)

text \<open>
  C2, as the code has it: one criterion is applied, by precedence. (1) A non-empty name
  gives the products of that name. (2) With the name absent or empty, a non-empty
  category that names a member gives the products of that category. (3) With the name
  and the category both absent or empty, a non-empty available gives the products whose
  availability is the parsed boolean. (4) With all three absent or empty, all products
  are listed. Each answer is one query on the whole table, so no two filters are
  combined. The case of no name with a non-empty category that names no member is not
  covered: there the lookup of the category fails.
\<close>

theorem filter_precedence:
  "(\<forall>n. args_get (args req) ''name'' = Some n \<and> n \<noteq> [] \<longrightarrow>
        list_products db req = listing (find_by_name db n))
   \<and> (\<forall>c cat. \<not> truthy (args_get (args req) ''name'') \<and> args_get (args req) ''category'' = Some c
        \<and> c \<noteq> [] \<and> Category_lookup c = Some cat \<longrightarrow>
        list_products db req = listing (find_by_category db cat))
   \<and> (\<forall>a. \<not> truthy (args_get (args req) ''name'') \<and> \<not> truthy (args_get (args req) ''category'')
        \<and> args_get (args req) ''available'' = Some a \<and> a \<noteq> [] \<longrightarrow>
        list_products db req = listing (find_by_availability db (lower a = ''true'')))
   \<and> (\<not> truthy (args_get (args req) ''name'') \<and> \<not> truthy (args_get (args req) ''category'')
        \<and> \<not> truthy (args_get (args req) ''available'') \<longrightarrow>
        list_products db req = listing (Product_all db))"
proof (intro conjI allI impI)
  fix n assume "args_get (args req) ''name'' = Some n \<and> n \<noteq> []"
  then show "list_products db req = listing (find_by_name db n)"
    by (simp add: list_products_def)
next
  fix c cat
  assume "\<not> truthy (args_get (args req) ''name'') \<and> args_get (args req) ''category'' = Some c
        \<and> c \<noteq> [] \<and> Category_lookup c = Some cat"
  then show "list_products db req = listing (find_by_category db cat)"
    by (simp add: list_products_def Category_getitem_def)
next
  fix a
  assume "\<not> truthy (args_get (args req) ''name'') \<and> \<not> truthy (args_get (args req) ''category'')
        \<and> args_get (args req) ''available'' = Some a \<and> a \<noteq> []"
  then show "list_products db req = listing (find_by_availability db (lower a = ''true''))"
    by (simp add: list_products_def)
next
  assume "\<not> truthy (args_get (args req) ''name'') \<and> \<not> truthy (args_get (args req) ''category'')
        \<and> \<not> truthy (args_get (args req) ''available'')"
  then show "list_products db req = listing (Product_all db)"
    by (simp add: list_products_def)
qed

theorem filter_precedence_witness:
  "list_products shop (query [(''available'', ''false''), (''category'', ''CLOTHS''), (''name'', ''Hammer'')])
     = listing [hammer]
   \<and> list_products shop (query [(''available'', ''true''), (''category'', ''CLOTHS'')]) = listing [shirt]
   \<and> list_products shop (query [(''available'', ''TRUE'')]) = listing [hammer]
   \<and> list_products shop (query []) = listing [hammer, shirt]"
  using filter_precedence [of "query [(''available'', ''false''), (''category'', ''CLOTHS''), (''name'', ''Hammer'')]" shop]
    filter_precedence [of "query [(''available'', ''true''), (''category'', ''CLOTHS'')]" shop]
    filter_precedence [of "query [(''available'', ''TRUE'')]" shop]
    filter_precedence [of "query []" shop]
  by (simp add: query_def args_get_def shop_queries Category_lookup_examples lower_examples)

text \<open>
  C2 as stated fails twice. GET /products?name= supplies a name, the empty one, and the
  answer lists every product, not the products whose name is empty (there are none).
  And GET /products?category=BOGUS&available=true supplies a category, yet the answer
  is no listing at all, for any category or otherwise: the request ends in
  \<^verbatim>\<open>KeyError\<close>.
\<close>

theorem filter_precedence_counterexample:
  "list_products shop (query [(''name'', '''')]) = listing (Product_all shop)
   \<and> list_products shop (query [(''name'', '''')]) \<noteq> listing (find_by_name shop '''')
   \<and> list_products shop (query [(''category'', ''BOGUS''), (''available'', ''true'')])
       = Inl (KeyError ''BOGUS'')
   \<and> isl (list_products shop (query [(''category'', ''BOGUS''), (''available'', ''true'')]))"
  by (simp add: query_def args_get_def list_products_def shop_queries jsonify_def
      Category_getitem_def Category_lookup_examples)

text \<open>
  C9, as the code has it: when neither a name nor a category is in force and the
  available parameter has the value \<open>s\<close>, a non-empty \<open>s\<close> is never an error: the answer
  is 200 with the products whose availability is the boolean \<open>lower s = ''true''\<close>, which
  is true exactly for the spellings of true in either case. An empty \<open>s\<close> applies no
  filter: every product is listed.
\<close>

theorem availability_parse:
  assumes "\<not> truthy (args_get (args req) ''name'')" and "\<not> truthy (args_get (args req) ''category'')"
    and "args_get (args req) ''available'' = Some s"
  shows "(s \<noteq> [] \<longrightarrow> list_products db req = listing (find_by_availability db (lower s = ''true'')))
       \<and> (s = [] \<longrightarrow> list_products db req = listing (Product_all db))
       \<and> (lower s = ''true'' \<longleftrightarrow>
            (\<exists>a b c d. s = [a, b, c, d] \<and> a \<in> {CHR ''t'', CHR ''T''} \<and> b \<in> {CHR ''r'', CHR ''R''}
               \<and> c \<in> {CHR ''u'', CHR ''U''} \<and> d \<in> {CHR ''e'', CHR ''E''}))"
proof (intro conjI impI)
  assume "s \<noteq> []"
  with assms show "list_products db req = listing (find_by_availability db (lower s = ''true''))"
    by (simp add: list_products_def)
next
  assume "s = []"
  with assms show "list_products db req = listing (Product_all db)"
    by (simp add: list_products_def)
next
  show "lower s = ''true'' \<longleftrightarrow>
            (\<exists>a b c d. s = [a, b, c, d] \<and> a \<in> {CHR ''t'', CHR ''T''} \<and> b \<in> {CHR ''r'', CHR ''R''}
               \<and> c \<in> {CHR ''u'', CHR ''U''} \<and> d \<in> {CHR ''e'', CHR ''E''})"
    by (rule lower_true_iff)
qed

theorem availability_parse_witness:
  "list_products shop (query [(''available'', ''True'')]) = listing [hammer]
   \<and> list_products shop (query [(''available'', ''yes'')]) = listing [shirt]"
  using availability_parse [of "query [(''available'', ''True'')]" "''True''" shop]
    availability_parse [of "query [(''available'', ''yes'')]" "''yes''" shop]
  by (simp add: query_def args_get_def shop_queries lower_examples)

text \<open>
  C9 as stated fails: GET /products?available= has the value \<open>''''\<close>, which does not
  lower-case to true, yet the answer is not the products that are unavailable: it is
  every product, the available hammer among them.
\<close>

theorem availability_parse_counterexample:
  "list_products shop (query [(''available'', '''')]) = listing (Product_all shop)
   \<and> list_products shop (query [(''available'', '''')])
       \<noteq> listing (find_by_availability shop (lower '''' = ''true''))"
  by (simp add: query_def args_get_def list_products_def shop_queries lower_examples jsonify_def)

text \<open>
  What the chain does after an empty parameter, one lemma for each of the three.
\<close>

lemma empty_name_falls_through:
  assumes "args_get (args req) ''name'' = Some ''''"
  shows "(\<forall>c cat. args_get (args req) ''category'' = Some c \<and> c \<noteq> []
            \<and> Category_lookup c = Some cat \<longrightarrow>
            list_products db req = listing (find_by_category db cat))
       \<and> (\<forall>a. \<not> truthy (args_get (args req) ''category'')
            \<and> args_get (args req) ''available'' = Some a \<and> a \<noteq> [] \<longrightarrow>
            list_products db req = listing (find_by_availability db (lower a = ''true'')))
       \<and> (\<not> truthy (args_get (args req) ''category'')
            \<and> \<not> truthy (args_get (args req) ''available'') \<longrightarrow>
            list_products db req = listing (Product_all db))"
  using assms by (simp add: list_products_def Category_getitem_def)

lemma empty_category_falls_through:
  assumes "args_get (args req) ''category'' = Some ''''"
  shows "(\<forall>n. args_get (args req) ''name'' = Some n \<and> n \<noteq> [] \<longrightarrow>
            list_products db req = listing (find_by_name db n))
       \<and> (\<forall>a. \<not> truthy (args_get (args req) ''name'')
            \<and> args_get (args req) ''available'' = Some a \<and> a \<noteq> [] \<longrightarrow>
            list_products db req = listing (find_by_availability db (lower a = ''true'')))
       \<and> (\<not> truthy (args_get (args req) ''name'')
            \<and> \<not> truthy (args_get (args req) ''available'') \<longrightarrow>
            list_products db req = listing (Product_all db))"
  using assms by (simp add: list_products_def)

lemma empty_available_falls_through:
  assumes "args_get (args req) ''available'' = Some ''''"
  shows "(\<forall>n. args_get (args req) ''name'' = Some n \<and> n \<noteq> [] \<longrightarrow>
            list_products db req = listing (find_by_name db n))
       \<and> (\<forall>c cat. \<not> truthy (args_get (args req) ''name'')
            \<and> args_get (args req) ''category'' = Some c \<and> c \<noteq> []
            \<and> Category_lookup c = Some cat \<longrightarrow>
            list_products db req = listing (find_by_category db cat))
       \<and> (\<not> truthy (args_get (args req) ''name'')
            \<and> \<not> truthy (args_get (args req) ''category'') \<longrightarrow>
            list_products db req = listing (Product_all db))"
  using assms by (simp add: list_products_def Category_getitem_def)

text \<open>
  C10: a query parameter whose value is the empty string counts as absent. The answer
  is the one the request gets with that parameter removed, and the chain goes on to the
  next criterion. After an empty name: a category that names a member selects the
  products of that category; with no category in force, a non-empty available selects
  by availability; with neither, every product is listed. After an empty category or
  an empty available, likewise: a non-empty name selects by name, then the other of
  the two selects, then every product is listed. So GET /products?name= lists every
  product, not the products whose name is empty.
\<close>

theorem empty_parameter_as_absent:
  assumes "args_get (args req) k = Some ''''"
  shows "list_products db req
           = list_products db (req\<lparr>args := filter (\<lambda>kv. fst kv \<noteq> k) (args req)\<rparr>)
       \<and> (k = ''name'' \<longrightarrow>
            (\<forall>c cat. args_get (args req) ''category'' = Some c \<and> c \<noteq> []
                \<and> Category_lookup c = Some cat \<longrightarrow>
                list_products db req = listing (find_by_category db cat))
          \<and> (\<forall>a. \<not> truthy (args_get (args req) ''category'')
                \<and> args_get (args req) ''available'' = Some a \<and> a \<noteq> [] \<longrightarrow>
                list_products db req = listing (find_by_availability db (lower a = ''true'')))
          \<and> (\<not> truthy (args_get (args req) ''category'')
                \<and> \<not> truthy (args_get (args req) ''available'') \<longrightarrow>
                list_products db req = listing (Product_all db)))
       \<and> (k = ''category'' \<longrightarrow>
            (\<forall>n. args_get (args req) ''name'' = Some n \<and> n \<noteq> [] \<longrightarrow>
                list_products db req = listing (find_by_name db n))
          \<and> (\<forall>a. \<not> truthy (args_get (args req) ''name'')
                \<and> args_get (args req) ''available'' = Some a \<and> a \<noteq> [] \<longrightarrow>
                list_products db req = listing (find_by_availability db (lower a = ''true'')))
          \<and> (\<not> truthy (args_get (args req) ''name'')
                \<and> \<not> truthy (args_get (args req) ''available'') \<longrightarrow>
                list_products db req = listing (Product_all db)))
       \<and> (k = ''available'' \<longrightarrow>
            (\<forall>n. args_get (args req) ''name'' = Some n \<and> n \<noteq> [] \<longrightarrow>
                list_products db req = listing (find_by_name db n))
          \<and> (\<forall>c cat. \<not> truthy (args_get (args req) ''name'')
                \<and> args_get (args req) ''category'' = Some c \<and> c \<noteq> []
                \<and> Category_lookup c = Some cat \<longrightarrow>
                list_products db req = listing (find_by_category db cat))
          \<and> (\<not> truthy (args_get (args req) ''name'')
                \<and> \<not> truthy (args_get (args req) ''category'') \<longrightarrow>
                list_products db req = listing (Product_all db)))
       \<and> list_products db (req\<lparr>args := [(''name'', '''')]\<rparr>) = listing (Product_all db)"
  (is "?E \<and> (?kn \<longrightarrow> ?N) \<and> (?kc \<longrightarrow> ?C) \<and> (?ka \<longrightarrow> ?A) \<and> ?X")
proof -
  from assms have e: ?E
    by (auto simp add: list_products_def args_get_def map_of_filter_key Let_def)
  have n: "?kn \<longrightarrow> ?N"
  proof
    assume ?kn
    with assms have "args_get (args req) ''name'' = Some ''''" by simp
    then show ?N by (rule empty_name_falls_through)
  qed
  have c: "?kc \<longrightarrow> ?C"
  proof
    assume ?kc
    with assms have "args_get (args req) ''category'' = Some ''''" by simp
    then show ?C by (rule empty_category_falls_through)
  qed
  have a: "?ka \<longrightarrow> ?A"
  proof
    assume ?ka
    with assms have "args_get (args req) ''available'' = Some ''''" by simp
    then show ?A by (rule empty_available_falls_through)
  qed
  have x: ?X
    by (simp add: list_products_def args_get_def)
  show ?thesis
    by (rule conjI [OF e conjI [OF n conjI [OF c conjI [OF a x]]]])
qed

theorem empty_parameter_as_absent_witness:
  "list_products shop (query [(''name'', ''''), (''available'', ''true'')]) = listing [hammer]
   \<and> list_products shop (query [(''name'', ''''), (''category'', ''CLOTHS'')]) = listing [shirt]
   \<and> list_products shop (query [(''category'', ''''), (''name'', ''Hammer'')]) = listing [hammer]
   \<and> list_products shop (query [(''available'', ''''), (''category'', ''CLOTHS'')]) = listing [shirt]
   \<and> list_products shop (query [(''name'', '''')]) = listing [hammer, shirt]
   \<and> find_by_name shop '''' = []"
  using empty_parameter_as_absent
      [of "query [(''name'', ''''), (''available'', ''true'')]" "''name''" shop, THEN conjunct2]
    empty_parameter_as_absent
      [of "query [(''name'', ''''), (''category'', ''CLOTHS'')]" "''name''" shop, THEN conjunct2]
    empty_parameter_as_absent
      [of "query [(''category'', ''''), (''name'', ''Hammer'')]" "''category''" shop,
       THEN conjunct2]
    empty_parameter_as_absent
      [of "query [(''available'', ''''), (''category'', ''CLOTHS'')]" "''available''" shop,
       THEN conjunct2]
  by (simp add: query_def args_get_def shop_queries Category_lookup_examples lower_examples)

subsection \<open>Reading, updating and deleting by id\<close>

text \<open>
  C6: when no stored row has the id of the path, GET, PUT and DELETE on
  /products/id are answered with 404 and the store is the one before the request.
\<close>

theorem missing_id_not_found:
  assumes "\<forall>r \<in> set (rows db). id' r \<noteq> Some (int product_id)"
  shows "get_products db product_id = (db, Inl (HTTPException HTTP_404_NOT_FOUND))
       \<and> update_products db product_id req = (db, Inl (HTTPException HTTP_404_NOT_FOUND))
       \<and> delete_products db product_id = (db, Inl (HTTPException HTTP_404_NOT_FOUND))
       \<and> status_code (snd (get_products db product_id)) = Some 404
       \<and> status_code (snd (update_products db product_id req)) = Some 404
       \<and> status_code (snd (delete_products db product_id)) = Some 404"
proof -
  from assms have "Product_find db (int product_id) = None"
    by (simp add: Product_find_def find_row_None_iff)
  then show ?thesis
    by (simp add: get_products_def update_products_def delete_products_def HTTP_404_NOT_FOUND_def)
qed

theorem missing_id_not_found_witness:
  "get_products shop 999999 = (shop, Inl (HTTPException 404))
   \<and> update_products shop 999999 (json_request (serialize hammer)) = (shop, Inl (HTTPException 404))
   \<and> delete_products shop 999999 = (shop, Inl (HTTPException 404))"
  using missing_id_not_found [of shop 999999 "json_request (serialize hammer)"]
  by (simp add: shop_def hammer_def shirt_def HTTP_404_NOT_FOUND_def)

subsection \<open>Creating\<close>

text \<open>
  C7: a POST on /products whose body is not JSON content-typed is answered with 415.
  The answer is the same whatever parsing the body would give, so nothing is parsed
  first, and the store is the one before the request: no product is created.
\<close>

theorem not_json_unsupported_media_type:
  assumes "\<not> is_json req"
  shows "create_products db (req\<lparr>parsed_json := j\<rparr>)
           = (db, Inl (HTTPException HTTP_415_UNSUPPORTED_MEDIA_TYPE))
       \<and> status_code (snd (create_products db (req\<lparr>parsed_json := j\<rparr>))) = Some 415
       \<and> Product_all (fst (create_products db (req\<lparr>parsed_json := j\<rparr>))) = Product_all db"
  using assms by (simp add: create_products_def HTTP_415_UNSUPPORTED_MEDIA_TYPE_def)

theorem not_json_unsupported_media_type_witness:
  "create_products shop \<lparr>args = [], is_json = False, parsed_json = Some (serialize hammer)\<rparr>
     = (shop, Inl (HTTPException 415))"
  using not_json_unsupported_media_type
    [of "\<lparr>args = [], is_json = False, parsed_json = None\<rparr>" shop "Some (serialize hammer)"]
  by (simp add: HTTP_415_UNSUPPORTED_MEDIA_TYPE_def)

section \<open>Properties of the Product model\<close>

subsection \<open>Decimals on the wire\<close>









lemma str_nat_nonempty: "str_nat n \<noteq> []"
  by (simp add: str_nat.simps [of n])







lemma decimal_examples:
  "str_decimal (Decimal 999 2) = ''9.99''"
  "str_decimal (Decimal (- 5) 2) = ''-0.05''"
  "str_decimal (Decimal 12 0) = ''12''"
  by (simp_all add: str_nat.simps digit_char_def)

lemma parse_decimal_examples:
  "parse_decimal ''9.99'' = Some (Decimal 999 2)"
  "parse_decimal ''abc'' = None"
  by (simp_all add: parse_decimal_def parse_unsigned_def is_digit_def nat_of_digits_def digit_val_def)

subsection \<open>Serialize and deserialize\<close>









subsection \<open>Create and find\<close>

lemma find_row_append:
  "find_row (rs @ [p]) i
     = (case find_row rs i of None \<Rightarrow> (if id' p = Some i then Some p else None) | Some r \<Rightarrow> Some r)"
  by (induction rs) auto

text \<open>
  C4: when create succeeds on a product \<open>p\<close>, the product it returns is \<open>p\<close> with the id
  the store assigned, and find on that id in the new store returns exactly that
  product: the same id, name, description, price, availability and category.
\<close>

theorem create_then_find:
  assumes "create db p = Inr (db', p')"
  shows "id' p' = Some (next_id db)
       \<and> p' = p\<lparr>id' := Some (next_id db)\<rparr>
       \<and> Product_find db' (next_id db) = Some p'
       \<and> Product_all db' = Product_all db @ [p']"
  using assms
  by (auto simp: create_def Let_def Product_find_def Product_all_def find_row_append
      split: if_splits)

lemma find_row_below:
  "list_all (id_below n) rs \<Longrightarrow> find_row rs n = None"
  by (induction rs) (auto simp: id_below_def split: option.splits)

text \<open>
  create does succeed on every store that satisfies the invariant, for every product
  with a name and a price.
\<close>

lemma create_succeeds:
  assumes "store_inv db" and "name p \<noteq> None" and "price p \<noteq> None"
  shows "create db p
           = Inr (db\<lparr>rows := rows db @ [p\<lparr>id' := Some (next_id db)\<rparr>], next_id := next_id db + 1\<rparr>,
                  p\<lparr>id' := Some (next_id db)\<rparr>)"
  using assms by (simp add: create_def Let_def store_inv_def Product_find_def find_row_below)

theorem create_then_find_witness:
  "create shop wrench = Inr (\<lparr>rows = [hammer, shirt, wrench\<lparr>id' := Some 3\<rparr>], next_id = 4\<rparr>, wrench\<lparr>id' := Some 3\<rparr>)
   \<and> Product_find \<lparr>rows = [hammer, shirt, wrench\<lparr>id' := Some 3\<rparr>], next_id = 4\<rparr> 3 = Some (wrench\<lparr>id' := Some 3\<rparr>)"
proof -
  have c: "create shop wrench
         = Inr (\<lparr>rows = [hammer, shirt, wrench\<lparr>id' := Some 3\<rparr>], next_id = 4\<rparr>, wrench\<lparr>id' := Some 3\<rparr>)"
    by (simp add: create_def Let_def Product_find_def shop_def hammer_def shirt_def wrench_def)
  from create_then_find [OF c] c show ?thesis by (simp add: shop_def)
qed

subsection \<open>The queries\<close>

lemma count_list_filter:
  "count_list (filter P xs) x = (if P x then count_list xs x else 0)"
  by (induction xs) auto

text \<open>
  C5: find_by_name returns exactly the stored rows whose name is the given string,
  under equality of strings (which tells capitals from small letters), each as often as
  it is stored; likewise find_by_category for the category and find_by_availability
  for the availability.
\<close>

theorem queries_exact:
  "set (find_by_name db n) = {r \<in> set (Product_all db). name r = Some n}
   \<and> set (find_by_category db c) = {r \<in> set (Product_all db). category r = Some c}
   \<and> set (find_by_availability db b) = {r \<in> set (Product_all db). available r = Some b}
   \<and> count_list (find_by_name db n) r = (if name r = Some n then count_list (Product_all db) r else 0)
   \<and> count_list (find_by_category db c) r
       = (if category r = Some c then count_list (Product_all db) r else 0)
   \<and> count_list (find_by_availability db b) r
       = (if available r = Some b then count_list (Product_all db) r else 0)"
  by (simp add: find_by_name_def find_by_category_def find_by_availability_def Product_all_def
      count_list_filter)

lemma shop_lowercase_name: "find_by_name shop ''hammer'' = []"
  by (simp add: find_by_name_def shop_def hammer_def shirt_def)

theorem queries_exact_witness:
  "set (find_by_name shop ''Hammer'') = {hammer}
   \<and> set (find_by_name shop ''hammer'') = {}
   \<and> set (find_by_category shop CLOTHS) = {shirt}
   \<and> set (find_by_availability shop False) = {shirt}"
  using queries_exact [of shop "''Hammer''" CLOTHS False hammer]
  by (simp add: shop_queries shop_lowercase_name)

subsection \<open>Update\<close>

lemma find_row_map_same:
  "find_row rs i = Some p \<Longrightarrow> id' q = Some i \<Longrightarrow>
   find_row (map (\<lambda>r. if id' r = Some i then q else r) rs) i = Some q"
  by (induction rs) (auto split: if_splits)

lemma find_row_map_other:
  "j \<noteq> i \<Longrightarrow> id' q = Some i \<Longrightarrow>
   find_row (map (\<lambda>r. if id' r = Some i then q else r) rs) j = find_row rs j"
  by (induction rs) auto

lemma deserialize_dict:
  assumes "deserialize p (JDict kvs) = Inr p'"
  shows "\<exists>n d pr a c.
           des_name kvs = Inr n \<and> des_description (description p) kvs = Inr d
           \<and> des_price kvs = Inr pr \<and> des_available (available p) kvs = Inr a
           \<and> des_category (category p) kvs = Inr c
           \<and> p' = p\<lparr>id' := des_id (id' p) kvs, name := Some n, description := d,
                    price := Some pr, available := a, category := c\<rparr>"
  using assms by (auto simp: deserialize_def split: sum.splits)

text \<open>An entity that has an id keeps it through deserialize, whatever the mapping says.\<close>

lemma deserialize_id:
  "deserialize p (JDict kvs) = Inr p' \<Longrightarrow> id' p = Some i \<Longrightarrow> id' p' = id' p"
  by (drule deserialize_dict) (auto simp: des_id_def)

lemma deserialize_kept:
  assumes "deserialize p (JDict kvs) = Inr p'"
  shows "(map_of kvs ''description'' = None \<longrightarrow> description p' = description p)
       \<and> (map_of kvs ''available'' = None \<longrightarrow> available p' = available p)
       \<and> (map_of kvs ''category'' = None \<longrightarrow> category p' = category p)"
  using deserialize_dict [OF assms]
  by (auto simp: des_description_def des_available_def des_category_def)

lemma deserialize_supplied:
  assumes "deserialize p (JDict kvs) = Inr p'"
  shows "(\<exists>n. map_of kvs ''name'' = Some (JStr n) \<and> name p' = Some n)
       \<and> (\<exists>s d. map_of kvs ''price'' = Some (JStr s) \<and> parse_decimal s = Some d \<and> price p' = Some d)"
  using deserialize_dict [OF assms]
  by (auto simp: des_name_def des_price_def split: option.splits json.splits)

lemma update_stored:
  assumes "Product_find db i = Some p" and "id' q = Some i"
  shows "update db q = Inr (db\<lparr>rows := map (\<lambda>r. if id' r = Some i then q else r) (rows db)\<rparr>)"
  using assms by (simp add: update_def)

text \<open>
  C8: a PUT on /products/id for a stored product \<open>p\<close> with a payload that deserialize
  accepts answers 200 and stores the deserialized product \<open>p'\<close> under the same id. The id
  of \<open>p'\<close> is the id of \<open>p\<close>, whatever the payload says; the name and the price are
  the payload's; description, availability and category are unchanged when the payload
  does not carry them; and the rows of every other id are as before.
\<close>

theorem update_keeps_id:
  assumes found: "Product_find db (int product_id) = Some p"
    and body: "get_json req = Inr (JDict kvs)"
    and valid: "deserialize p (JDict kvs) = Inr p'"
  shows "update_products db product_id req
           = (db\<lparr>rows := map (\<lambda>r. if id' r = Some (int product_id) then p' else r) (rows db)\<rparr>,
              Inr \<lparr>body = jsonify (serialize p'), status = HTTP_200_OK, headers = []\<rparr>)
       \<and> id' p' = id' p \<and> id' p' = Some (int product_id)
       \<and> Product_find (fst (update_products db product_id req)) (int product_id) = Some p'
       \<and> (\<forall>j. j \<noteq> int product_id \<longrightarrow>
             Product_find (fst (update_products db product_id req)) j = Product_find db j)
       \<and> (map_of kvs ''description'' = None \<longrightarrow> description p' = description p)
       \<and> (map_of kvs ''available'' = None \<longrightarrow> available p' = available p)
       \<and> (map_of kvs ''category'' = None \<longrightarrow> category p' = category p)
       \<and> (\<exists>n. map_of kvs ''name'' = Some (JStr n) \<and> name p' = Some n)
       \<and> (\<exists>s d. map_of kvs ''price'' = Some (JStr s) \<and> parse_decimal s = Some d \<and> price p' = Some d)"
proof -
  from found have idp: "id' p = Some (int product_id)"
    by (simp add: Product_find_def find_row_Some)
  from valid idp have same: "id' p' = id' p" by (rule deserialize_id)
  with idp have idp': "id' p' = Some (int product_id)" by simp
  from update_stored [OF found idp']
  have route: "update_products db product_id req
           = (db\<lparr>rows := map (\<lambda>r. if id' r = Some (int product_id) then p' else r) (rows db)\<rparr>,
              Inr \<lparr>body = jsonify (serialize p'), status = HTTP_200_OK, headers = []\<rparr>)"
    using found body valid by (simp add: update_products_def)
  from found idp' have after: "Product_find (fst (update_products db product_id req)) (int product_id) = Some p'"
    by (simp add: route Product_find_def find_row_map_same)
  from idp' have others: "\<forall>j. j \<noteq> int product_id \<longrightarrow>
             Product_find (fst (update_products db product_id req)) j = Product_find db j"
    by (simp add: route Product_find_def find_row_map_other)
  from route same idp' after others deserialize_kept [OF valid] deserialize_supplied [OF valid]
  show ?thesis by blast
qed

lemma hammer_found: "Product_find shop 1 = Some hammer"
  by (simp add: Product_find_def shop_def hammer_def)

lemma hammer_deserialize:
  "deserialize hammer (JDict hammer_kvs) = Inr (hammer\<lparr>description := Some ''Updated description''\<rparr>)"
  by (simp add: deserialize_def hammer_kvs_def des_id_def des_name_def des_description_def
      des_price_def des_available_def des_category_def parse_decimal_def parse_unsigned_def
      is_digit_def nat_of_digits_def digit_val_def hammer_def)

theorem update_keeps_id_witness:
  "update_products shop 1 (json_request (JDict hammer_kvs))
     = (\<lparr>rows = [hammer\<lparr>description := Some ''Updated description''\<rparr>, shirt], next_id = 3\<rparr>,
        Inr \<lparr>body = jsonify (serialize (hammer\<lparr>description := Some ''Updated description''\<rparr>)),
             status = HTTP_200_OK, headers = []\<rparr>)
   \<and> id' (hammer\<lparr>description := Some ''Updated description''\<rparr>) = Some 1"
proof -
  have f: "Product_find shop (int 1) = Some hammer" using hammer_found by simp
  have g: "get_json (json_request (JDict hammer_kvs)) = Inr (JDict hammer_kvs)"
    by (simp add: get_json_def json_request_def)
  from update_keeps_id [OF f g hammer_deserialize]
  show ?thesis by (simp add: shop_def hammer_def shirt_def)
qed

subsection \<open>The invariant of the store\<close>

text \<open>
  The invariant of the store (ids are set, distinct and below the next id) holds of the
  example store and is kept by create, update and delete.
\<close>

lemma store_inv_shop: "store_inv shop"
  by (simp add: store_inv_def id_below_def shop_def hammer_def shirt_def)

lemma below_notin:
  "list_all (id_below n) rs \<Longrightarrow> Some n \<notin> id' ` set rs"
  by (induction rs) (auto simp: id_below_def split: option.splits)

lemma below_mono:
  "list_all (id_below n) rs \<Longrightarrow> n \<le> m \<Longrightarrow>
   list_all (id_below m) rs"
  by (induction rs) (auto simp: id_below_def split: option.splits)

lemma create_inv:
  assumes "store_inv db" and "create db p = Inr (db', p')"
  shows "store_inv db'"
proof -
  from assms(2) have db': "db' = db\<lparr>rows := rows db @ [p\<lparr>id' := Some (next_id db)\<rparr>], next_id := next_id db + 1\<rparr>"
    by (auto simp: create_def Let_def split: if_splits)
  from assms(1) have d: "distinct (map id' (rows db))"
    and b: "list_all (id_below (next_id db)) (rows db)"
    by (simp_all add: store_inv_def)
  from below_notin [OF b] d have "distinct (map id' (rows db @ [p\<lparr>id' := Some (next_id db)\<rparr>]))"
    by simp
  moreover from below_mono [OF b, of "next_id db + 1"]
  have "list_all (id_below (next_id db + 1))
          (rows db @ [p\<lparr>id' := Some (next_id db)\<rparr>])"
    by (simp add: id_below_def)
  ultimately show ?thesis by (simp add: store_inv_def db')
qed

lemma map_id_replace:
  "id' q = Some i \<Longrightarrow> map id' (map (\<lambda>r. if id' r = Some i then q else r) rs) = map id' rs"
  by (induction rs) auto

lemma below_replace:
  "id' q = Some i \<Longrightarrow>
   list_all (id_below n) rs \<Longrightarrow>
   list_all (id_below n) (map (\<lambda>r. if id' r = Some i then q else r) rs)"
  by (induction rs) (auto simp: id_below_def split: option.splits)

lemma update_inv:
  assumes "store_inv db" and "update db q = Inr db'"
  shows "store_inv db'"
proof -
  from assms(2) obtain i where i: "id' q = Some i"
    and db': "db' = db\<lparr>rows := map (\<lambda>r. if id' r = Some i then q else r) (rows db)\<rparr>"
    by (auto simp: update_def split: option.splits if_splits)
  from assms(1) have "distinct (map id' (map (\<lambda>r. if id' r = Some i then q else r) (rows db)))"
    by (simp only: map_id_replace [OF i] store_inv_def)
  moreover from assms(1)
  have "list_all (id_below (next_id db)) (map (\<lambda>r. if id' r = Some i then q else r) (rows db))"
    by (simp add: store_inv_def below_replace [OF i])
  ultimately show ?thesis
    by (simp add: store_inv_def db' del: map_map)
qed

lemma delete_inv:
  assumes "store_inv db"
  shows "store_inv (delete db q)"
  using assms
  by (cases "id' q") (auto simp: store_inv_def delete_def distinct_map_filter list_all_iff)

end
